theory Spec2Isabelle
  imports Main
begin

section \<open>Values shared by the manager and the feature pipeline\<close>

text \<open>
  Go \<open>error\<close> values. \<open>fmt.Errorf\<close> with the verb \<open>%w\<close> wraps the error it is given;
  without \<open>%w\<close> it makes a new error from the message alone. An error of a gRPC call is a
  status with a numeric code; errors of the other libraries (the cluster client, the JSON
  decoder, the event encoder, the broker) are opaque.
\<close>

datatype error =
    Status nat string
  | Lib string
  | Errorf string
  | Wrapf string error

definition codes_NotFound :: nat where
  "codes_NotFound = 5"

definition codes_Unknown :: nat where
  "codes_Unknown = 2"

fun status_Code :: "error \<Rightarrow> nat" where
  "status_Code (Status c m) = c"
| "status_Code (Lib m) = codes_Unknown"
| "status_Code (Errorf m) = codes_Unknown"
| "status_Code (Wrapf p e) = codes_Unknown"

text \<open>
  A function that can hit a nil dereference either panics or returns.
\<close>

datatype 'a outcome = Panic | Return 'a

text \<open>The fields of Go's \<open>url.URL\<close>; \<open>url.URL{}\<close> has every field empty.\<close>

record URL =
  Scheme :: string
  Opaque :: string
  User :: string
  Host :: string
  Path :: string
  RawPath :: string
  ForceQuery :: bool
  RawQuery :: string
  Fragment :: string
  RawFragment :: string

definition URL_zero :: URL where
  "URL_zero = \<lparr>Scheme = '''', Opaque = '''', User = '''', Host = '''', Path = '''',
     RawPath = '''', ForceQuery = False, RawQuery = '''', Fragment = '''', RawFragment = ''''\<rparr>"

text \<open>\<open>url.Values\<close> is a Go map from a key to the list of its values.\<close>

type_synonym Values = "string \<rightharpoonup> string list"

definition Values_Add :: "Values \<Rightarrow> string \<Rightarrow> string \<Rightarrow> Values" where
  "Values_Add v key val = v(key \<mapsto> (case v key of None \<Rightarrow> [] | Some vs \<Rightarrow> vs) @ [val])"

record Feature =
  Kind :: string
  FQN :: string
  Schema :: string
  Expression :: string
  programSha1 :: string

record ResourceReference =
  Name :: string
  Namespace :: string

text \<open>What the cluster client returns for a feature: its name and the raw builder bytes.\<close>

record FeatureSpec =
  spec_FQN :: string
  Builder_Raw :: string

record DataSource =
  ds_Name :: string
  ds_Namespace :: string
  Spec_Kind :: string
  Status_Features :: "ResourceReference list"

record Message =
  Body :: string
  Metadata :: "(string \<times> string) list"
  Nackable :: bool

record brokers_Metadata =
  ID :: string
  Timestamp :: nat
  Topic :: string

record Event =
  ev_ID :: string
  ev_Source :: string
  ev_Time :: nat
  ev_DataSchema :: string
  ev_Subject :: string
  ev_headers :: "URL option"
  ev_DataContentType :: string
  ev_Data :: string

definition NewEvent :: Event where
  "NewEvent = \<lparr>ev_ID = '''', ev_Source = '''', ev_Time = 0, ev_DataSchema = '''',
     ev_Subject = '''', ev_headers = None, ev_DataContentType = '''', ev_Data = ''''\<rparr>"

record ExecutePyExpRequest =
  Uuid :: nat
  Fqn :: string
  ProgramSha1 :: string
  Data :: string

record Broker =
  Subscribe :: "string \<Rightarrow> error option"
  Metadata_of :: "Message \<Rightarrow> brokers_Metadata"

record BaseStreaming =
  BrokerKind :: string
  Workers :: int
  bs_Schema :: "URL option"
  subscription :: "nat option"
  mdExtractor :: "(Message \<Rightarrow> brokers_Metadata) option"
  features :: "Feature option list"

text \<open>
  The reply of the runtime to one RPC: a status error, or a response that carries a
  correlation id and a payload.
\<close>

datatype 'a reply = Fail nat string | Resp nat 'a

text \<open>
  The collaborators the manager calls but does not define: the runtime's three RPCs (the
  reply to the k-th call of each, given the request), the cluster client, the decoders and
  encoders of the standard and third-party libraries, and the broker registry.
\<close>

record env =
  RegisterSchema :: "nat \<Rightarrow> nat \<times> string \<Rightarrow> unit reply"
  LoadPyExpProgram :: "nat \<Rightarrow> nat \<times> string \<Rightarrow> string reply"
  ExecutePyExp :: "nat \<Rightarrow> ExecutePyExpRequest \<Rightarrow> unit reply"
  client_Get :: "string \<times> string \<Rightarrow> error + FeatureSpec"
  json_Unmarshal :: "string \<Rightarrow> error + string \<times> string \<times> string"
  url_Parse :: "string \<Rightarrow> error + URL"
  url_String :: "URL \<Rightarrow> string"
  url_ParseQuery :: "string \<Rightarrow> Values"
  Values_Encode :: "Values \<Rightarrow> string"
  strings_ToLower :: "string \<Rightarrow> string"
  conn_String :: string
  ev_SetData :: "string \<Rightarrow> string \<Rightarrow> error option"
  ceProto_ToProto :: "Event \<Rightarrow> error + string"
  anypb_New :: "string \<Rightarrow> error + string"
  ParseConfig :: "DataSource \<Rightarrow> string \<times> error option"
  cfg_Unmarshal :: "string \<Rightarrow> error + string \<times> int \<times> URL option"
  brokers_Get :: "string \<Rightarrow> Broker option"

text \<open>
  What the process has done to the runtime so far: how many correlation ids \<open>newUUID\<close> has
  drawn, and the requests sent on each RPC, oldest first.
\<close>

record world =
  uuids :: nat
  schema_reqs :: "(nat \<times> string) list"
  load_reqs :: "(nat \<times> string) list"
  exec_reqs :: "ExecutePyExpRequest list"

definition world_zero :: world where
  "world_zero = \<lparr>uuids = 0, schema_reqs = [], load_reqs = [], exec_reqs = []\<rparr>"

text \<open>\<open>newUUID\<close>: every call yields an id no earlier call has yielded.\<close>

definition newUUID :: "world \<Rightarrow> nat \<times> world" where
  "newUUID w = (uuids w, w\<lparr>uuids := Suc (uuids w)\<rparr>)"

section \<open>Registration with the runtime\<close>

definition registerSchema :: "env \<Rightarrow> world \<Rightarrow> string \<Rightarrow> error option \<times> world" where
  "registerSchema e w schema =
     (let (uuid, w1) = newUUID w;
          req = (uuid, schema);
          w2 = w1\<lparr>schema_reqs := schema_reqs w1 @ [req]\<rparr>
      in case RegisterSchema e (length (schema_reqs w1)) req of
           Fail c m \<Rightarrow> (Some (Wrapf ''failed to register schema'' (Status c m)), w2)
         | Resp ruuid x \<Rightarrow>
             if ruuid \<noteq> uuid
             then (Some (Errorf ''failed to register schema: unexpected uuid''), w2)
             else (None, w2))"

text \<open>
  \<open>registerProgram\<close> writes the fingerprint through the feature pointer; the model
  returns the feature as it is after the call.
\<close>

definition registerProgram :: "env \<Rightarrow> world \<Rightarrow> Feature \<Rightarrow> (error option \<times> Feature) \<times> world" where
  "registerProgram e w ft =
     (let (uuid, w1) = newUUID w;
          req = (uuid, Expression ft);
          w2 = w1\<lparr>load_reqs := load_reqs w1 @ [req]\<rparr>
      in case LoadPyExpProgram e (length (load_reqs w1)) req of
           Fail c m \<Rightarrow> ((Some (Wrapf ''failed to register program'' (Status c m)), ft), w2)
         | Resp ruuid sha \<Rightarrow>
             if ruuid \<noteq> uuid
             then ((Some (Errorf ''failed to register program: unexpected uuid''), ft), w2)
             else ((None, ft\<lparr>programSha1 := sha\<rparr>), w2))"

section \<open>Feature resolution\<close>

text \<open>
  The schema block of \<open>getFeature\<close>. \<open>bs.Schema\<close> is a pointer that is nil when the
  source configures no schema; each of the three branches reads through it.
\<close>

definition getFeature_schema ::
  "env \<Rightarrow> world \<Rightarrow> Feature \<Rightarrow> BaseStreaming \<Rightarrow> (error + Feature) outcome \<times> world" where
  "getFeature_schema e w ft bs =
     (if Schema ft \<noteq> '''' then
        (case url_Parse e (Schema ft) of
           Inr u \<Rightarrow>
             if Scheme u \<noteq> '''' \<and> Host u \<noteq> '''' \<and> Fragment u \<noteq> '''' then
               (case bs_Schema bs of
                  None \<Rightarrow> (Panic, w)
                | Some src \<Rightarrow>
                    if \<not> (Scheme u = Scheme src \<and> Host u = Host src) then
                      (case registerSchema e w (Schema ft) of
                         (Some err, w1) \<Rightarrow>
                           (Return (Inl (Wrapf ''failed to register schema'' err)), w1)
                       | (None, w1) \<Rightarrow> (Return (Inr ft), w1))
                    else (Return (Inr ft), w))
             else
               (case bs_Schema bs of
                  None \<Rightarrow> (Panic, w)
                | Some src \<Rightarrow>
                    (Return (Inr (ft\<lparr>Schema := url_String e (src\<lparr>Fragment := Schema ft\<rparr>)\<rparr>)), w))
         | Inl perr \<Rightarrow>
             (case bs_Schema bs of
                None \<Rightarrow> (Panic, w)
              | Some src \<Rightarrow>
                  (Return (Inr (ft\<lparr>Schema := url_String e (src\<lparr>Fragment := Schema ft\<rparr>)\<rparr>)), w)))
      else
        (case bs_Schema bs of
           None \<Rightarrow> (Panic, w)
         | Some src \<Rightarrow> (Return (Inr (ft\<lparr>Schema := url_String e src\<rparr>)), w)))"

text \<open>
  \<open>getFeature\<close> returns a pair (feature pointer, error). The pointer is nil on the first
  three failures and on a failed schema registration; the last line returns the feature
  together with whatever \<open>registerProgram\<close> returned.
\<close>

definition getFeature ::
  "env \<Rightarrow> world \<Rightarrow> ResourceReference \<Rightarrow> BaseStreaming \<Rightarrow>
     (Feature option \<times> error option) outcome \<times> world" where
  "getFeature e w ref bs =
     (case client_Get e (Namespace ref, Name ref) of
        Inl err \<Rightarrow> (Return (None, Some (Wrapf ''failed to fetch feature definition'' err)), w)
      | Inr ftSpec \<Rightarrow>
          (case json_Unmarshal e (Builder_Raw ftSpec) of
             Inl err \<Rightarrow>
               (Return (None, Some (Wrapf ''failed to unmarshal feature definition'' err)), w)
           | Inr (kind, schema, expression) \<Rightarrow>
               if kind \<noteq> ''streaming'' then
                 (Return (None,
                    Some (Errorf (''feature definition kind is not supported: '' @ kind))), w)
               else
                 (let ft = \<lparr>Kind = kind, FQN = spec_FQN ftSpec, Schema = schema,
                            Expression = expression, programSha1 = ''''\<rparr>
                  in case getFeature_schema e w ft bs of
                       (Panic, w1) \<Rightarrow> (Panic, w1)
                     | (Return (Inl err), w1) \<Rightarrow> (Return (None, Some err), w1)
                     | (Return (Inr ft1), w1) \<Rightarrow>
                         (case registerProgram e w1 ft1 of
                            ((err, ft2), w2) \<Rightarrow> (Return (Some ft2, err), w2)))))"

text \<open>
  The loop of \<open>getFeatureDefinitions\<close>: the error of \<open>getFeature\<close> is logged, and the
  pointer it returned is appended in either case.
\<close>

fun getFeatureDefinitions_loop ::
  "env \<Rightarrow> world \<Rightarrow> DataSource \<Rightarrow> BaseStreaming \<Rightarrow> ResourceReference list \<Rightarrow>
     Feature option list \<Rightarrow> Feature option list outcome \<times> world" where
  "getFeatureDefinitions_loop e w ds bsc [] fts = (Return fts, w)"
| "getFeatureDefinitions_loop e w ds bsc (ref # refs) fts =
     (let ref1 = (if Namespace ref = '''' then ref\<lparr>Namespace := ds_Namespace ds\<rparr> else ref)
      in case getFeature e w ref1 bsc of
           (Panic, w1) \<Rightarrow> (Panic, w1)
         | (Return (ft, err), w1) \<Rightarrow> getFeatureDefinitions_loop e w1 ds bsc refs (fts @ [ft]))"

definition getFeatureDefinitions ::
  "env \<Rightarrow> world \<Rightarrow> DataSource \<Rightarrow> BaseStreaming \<Rightarrow> Feature option list outcome \<times> world" where
  "getFeatureDefinitions e w ds bsc =
     getFeatureDefinitions_loop e w ds bsc (Status_Features ds) []"

section \<open>The execution pipeline\<close>

text \<open>
  The headers of the event. \<open>msg.Metadata\<close> is a Go map; the list is the order in which
  this pass of \<open>range\<close> visits it. \<open>u.Query()\<close> parses \<open>u.RawQuery\<close> into a new
  \<open>Values\<close> on every call, so \<open>u.Query().Add(k, v)\<close> adds to a value that nothing keeps.
\<close>

definition URL_Query :: "env \<Rightarrow> URL \<Rightarrow> Values" where
  "URL_Query e u = url_ParseQuery e (RawQuery u)"

fun headers_loop :: "env \<Rightarrow> (string \<times> string) list \<Rightarrow> string \<times> URL \<Rightarrow> string \<times> URL" where
  "headers_loop e [] (contentType, u) = (contentType, u)"
| "headers_loop e ((k, v) # kvs) (contentType, u) =
     (let contentType1 = (if strings_ToLower e k = ''content-type'' then v else contentType);
          discarded = Values_Add (URL_Query e u) k v
      in headers_loop e kvs (contentType1, u))"

definition message_headers :: "env \<Rightarrow> (string \<times> string) list \<Rightarrow> string \<times> URL" where
  "message_headers e md =
     (let (contentType, u) = headers_loop e md ('''', URL_zero)
      in (contentType, u\<lparr>RawQuery := Values_Encode e (URL_Query e u)\<rparr>))"

text \<open>
  The block under the label \<open>exec\<close>: the request is built once, before the label, and is
  sent again unchanged on every retry.
\<close>

function handle_exec ::
  "env \<Rightarrow> world \<Rightarrow> ExecutePyExpRequest \<Rightarrow> Feature \<Rightarrow> nat \<Rightarrow>
     (error option \<times> Feature) \<times> world" where
  "handle_exec e w req ft tries =
     (let w1 = w\<lparr>exec_reqs := exec_reqs w @ [req]\<rparr>
      in case ExecutePyExp e (length (exec_reqs w)) req of
           Fail c m \<Rightarrow>
             if status_Code (Status c m) = codes_NotFound then
               (case registerProgram e w1 ft of
                  ((Some rerr, ft1), w2) \<Rightarrow>
                    ((Some (Wrapf ''failed to register program'' rerr), ft1), w2)
                | ((None, ft1), w2) \<Rightarrow>
                    if tries < 3 then handle_exec e w2 req ft1 (tries + 1)
                    else ((Some (Wrapf ''failed to execute program'' (Status c m)), ft1), w2))
             else ((Some (Wrapf ''failed to execute program'' (Status c m)), ft), w1)
         | Resp ruuid x \<Rightarrow>
             if ruuid \<noteq> Uuid req
             then ((Some (Errorf ''failed to execute program: unexpected uuid''), ft), w1)
             else ((None, ft), w1))"
  by pat_completeness auto
termination
  by (relation "measure (\<lambda>(e, w, req, ft, tries). 3 - tries)") auto

declare handle_exec.simps [simp del]

text \<open>The body of the loop of \<open>handle\<close> for one feature that is not nil.\<close>

definition handle_feature ::
  "env \<Rightarrow> world \<Rightarrow> Message \<Rightarrow> brokers_Metadata \<Rightarrow> Feature \<Rightarrow>
     (error option \<times> Feature) \<times> world" where
  "handle_feature e w msg md ft =
     (let ev = NewEvent\<lparr>ev_ID := ID md, ev_Source := conn_String e, ev_Time := Timestamp md,
                 ev_DataSchema := Schema ft, ev_Subject := Topic md\<rparr>;
          (contentType, u) = message_headers e (Metadata msg);
          ev1 = ev\<lparr>ev_headers := Some u\<rparr>
      in case ev_SetData e contentType (Body msg) of
           Some err \<Rightarrow> ((Some (Wrapf ''failed to set data'' err), ft), w)
         | None \<Rightarrow>
             (let ev2 = ev1\<lparr>ev_DataContentType := contentType, ev_Data := Body msg\<rparr>
              in case ceProto_ToProto e ev2 of
                   Inl err \<Rightarrow> ((Some (Wrapf ''failed to convert event to protobuf'' err), ft), w)
                 | Inr pb \<Rightarrow>
                     (case anypb_New e pb of
                        Inl err \<Rightarrow> ((Some (Wrapf ''failed to create anypb'' err), ft), w)
                      | Inr data \<Rightarrow>
                          (let (uuid, w1) = newUUID w;
                               req = \<lparr>Uuid = uuid, Fqn = FQN ft,
                                      ProgramSha1 = programSha1 ft, Data = data\<rparr>
                           in handle_exec e w1 req ft 1))))"

text \<open>
  \<open>handle\<close> walks \<open>bs.features\<close>, a slice of pointers; reading \<open>ft.Schema\<close> through a nil
  entry panics. The features are returned as the call leaves them.
\<close>

fun handle ::
  "env \<Rightarrow> world \<Rightarrow> Message \<Rightarrow> brokers_Metadata \<Rightarrow> Feature option list \<Rightarrow>
     error option outcome \<times> Feature option list \<times> world" where
  "handle e w msg md [] = (Return None, [], w)"
| "handle e w msg md (None # fts) = (Panic, None # fts, w)"
| "handle e w msg md (Some ft # fts) =
     (case handle_feature e w msg md ft of
        ((Some err, ft1), w1) \<Rightarrow> (Return (Some err), Some ft1 # fts, w1)
      | ((None, ft1), w1) \<Rightarrow>
          (case handle e w1 msg md fts of
             (r, fts1, w2) \<Rightarrow> (r, Some ft1 # fts1, w2)))"

section \<open>The consumer loop\<close>

text \<open>
  The acknowledgement state of a message of \<open>gocloud.dev/pubsub\<close>. \<open>Ack\<close> and \<open>Nack\<close>
  panic on a message on which either has already been called ("Ack/Nack called twice on
  message"), and \<open>Nack\<close> panics on a message of a driver that does not support it;
  \<open>Nackable\<close> tells whether the driver does, and is the same for every message of a
  subscription.
\<close>

datatype ack_state = Pending | Acked | Nacked

definition Message_Ack :: "ack_state \<Rightarrow> ack_state outcome" where
  "Message_Ack s = (if s \<noteq> Pending then Panic else Return Acked)"

definition Message_Nack :: "bool \<Rightarrow> ack_state \<Rightarrow> ack_state outcome" where
  "Message_Nack nackable s =
     (if s \<noteq> Pending then Panic else if \<not> nackable then Panic else Return Nacked)"

text \<open>
  The end of a turn of the loop, once \<open>handle\<close> has returned: on an error \<open>Nack\<close> if the
  message is nackable, then, in either case, \<open>Ack\<close>. The result is the state the message
  is left in, and whether the turn returned or panicked.
\<close>

definition subscribe_settle :: "Message \<Rightarrow> error option \<Rightarrow> ack_state \<times> unit outcome" where
  "subscribe_settle msg herr =
     (case (case herr of
              Some err \<Rightarrow>
                if Nackable msg then Message_Nack (Nackable msg) Pending else Return Pending
            | None \<Rightarrow> Return Pending) of
        Panic \<Rightarrow> (Pending, Panic)
      | Return s \<Rightarrow>
          (case Message_Ack s of
             Panic \<Rightarrow> (s, Panic)
           | Return s1 \<Rightarrow> (s1, Return ())))"

text \<open>
  What one turn of the loop of a worker meets: the context is done, \<open>Receive\<close> fails, or
  \<open>Receive\<close> returns a message. An empty list is a worker left waiting in \<open>Receive\<close>. The
  result lists, for every message received, the state it is left in, and tells whether the
  worker returned or panicked; a panic ends the loop, and the messages after it are not
  received.
\<close>

datatype received = CtxDone | RecvErr error | Recv Message

fun subscribe_worker ::
  "env \<Rightarrow> world \<Rightarrow> BaseStreaming \<Rightarrow> received list \<Rightarrow>
     ack_state list \<times> unit outcome \<times> BaseStreaming \<times> world" where
  "subscribe_worker e w bs [] = ([], Return (), bs, w)"
| "subscribe_worker e w bs (CtxDone # rs) = ([], Return (), bs, w)"
| "subscribe_worker e w bs (RecvErr err # rs) = ([], Return (), bs, w)"
| "subscribe_worker e w bs (Recv msg # rs) =
     (case mdExtractor bs of
        None \<Rightarrow> ([], Panic, bs, w)
      | Some extract \<Rightarrow>
          (case handle e w msg (extract msg) (features bs) of
             (Panic, fts, w1) \<Rightarrow> ([Pending], Panic, bs\<lparr>features := fts\<rparr>, w1)
           | (Return herr, fts, w1) \<Rightarrow>
               (case subscribe_settle msg herr of
                  (s, Panic) \<Rightarrow> ([s], Panic, bs\<lparr>features := fts\<rparr>, w1)
                | (s, Return u) \<Rightarrow>
                    (case subscribe_worker e w1 (bs\<lparr>features := fts\<rparr>) rs of
                       (log, r, bs1, w2) \<Rightarrow> (s # log, r, bs1, w2)))))"

section \<open>The manager\<close>

text \<open>
  The fields of the manager, and what it has done to its surroundings: the number of
  contexts made by \<open>context.WithCancel\<close> in \<open>Add\<close> (a context is named by its number), the
  contexts whose cancel function has been called, the contexts for which \<open>broker.Subscribe\<close>
  returned a subscription (a teardown goroutine waits on each), the contexts whose
  subscription has been shut down, and the worker pools started, with their sizes.
\<close>

record manager =
  m_ready :: bool
  m_cancel :: "nat option"
  m_bs :: "BaseStreaming option"
  ctxs :: nat
  cancelled :: "nat list"
  subscribed :: "nat list"
  shutdowns :: "nat list"
  pools :: "(nat \<times> nat) list"
  runtime :: world

definition manager_zero :: manager where
  "manager_zero = \<lparr>m_ready = False, m_cancel = None, m_bs = None, ctxs = 0, cancelled = [],
     subscribed = [], shutdowns = [], pools = [], runtime = world_zero\<rparr>"

definition Add :: "env \<Rightarrow> DataSource \<Rightarrow> manager \<Rightarrow> manager outcome" where
  "Add e ds m0 =
     (let m = m0\<lparr>m_ready := False\<rparr>
      in if Spec_Kind ds \<noteq> ''streaming'' then Return m
         else
           (let (cfg, perr) = ParseConfig e ds
            in case cfg_Unmarshal e cfg of
                 Inl err \<Rightarrow> Return m
               | Inr (kind, workers, schema) \<Rightarrow>
                   (let bs0 = \<lparr>BrokerKind = kind, Workers = workers, bs_Schema = schema,
                               subscription = None, mdExtractor = None, features = []\<rparr>;
                        bs1 = (if Workers bs0 = 0 then bs0\<lparr>Workers := 1\<rparr> else bs0)
                    in case (case bs_Schema bs1 of
                               None \<Rightarrow> (None, runtime m)
                             | Some u \<Rightarrow> registerSchema e (runtime m) (url_String e u)) of
                         (Some err, w1) \<Rightarrow> Return (m\<lparr>runtime := w1\<rparr>)
                       | (None, w1) \<Rightarrow>
                           (case brokers_Get e (BrokerKind bs1) of
                              None \<Rightarrow> Return (m\<lparr>runtime := w1\<rparr>)
                            | Some broker \<Rightarrow>
                                (let bs2 = bs1\<lparr>mdExtractor := Some (Metadata_of broker)\<rparr>;
                                     ctx = ctxs m;
                                     m1 = m\<lparr>runtime := w1, ctxs := Suc (ctxs m),
                                            m_cancel := Some ctx\<rparr>
                                 in case Subscribe broker cfg of
                                      Some err \<Rightarrow> Return m1
                                    | None \<Rightarrow>
                                        (let bs3 = bs2\<lparr>subscription := Some ctx\<rparr>;
                                             m2 = m1\<lparr>subscribed := subscribed m1 @ [ctx]\<rparr>
                                         in case getFeatureDefinitions e (runtime m2) ds bs3 of
                                              (Panic, w2) \<Rightarrow> Panic
                                            | (Return fts, w2) \<Rightarrow>
                                                Return (m2\<lparr>runtime := w2,
                                                  pools := pools m2 @ [(ctx, nat (Workers bs3))],
                                                  m_ready := True,
                                                  m_bs := Some (bs3\<lparr>features := fts\<rparr>)\<rparr>)))))))"

definition Update :: "env \<Rightarrow> DataSource \<Rightarrow> DataSource \<Rightarrow> manager \<Rightarrow> manager outcome" where
  "Update e old ds m =
     Add e ds (case m_cancel m of
                 None \<Rightarrow> m
               | Some c \<Rightarrow> m\<lparr>cancelled := cancelled m @ [c], m_bs := None\<rparr>)"

text \<open>
  The goroutine \<open>Add\<close> starts after a successful \<open>Subscribe\<close>: once its context is done it
  shuts the subscription down and sets \<open>m.cancel\<close> to nil. It runs on its own, at any time
  after the cancellation; until then it waits. The context that \<open>Subscribe\<close> returns is
  taken to be done when the cancel function of the context it was given is called.
\<close>

definition teardown :: "nat \<Rightarrow> manager \<Rightarrow> manager" where
  "teardown c m =
     (if c \<in> set (subscribed m) \<and> c \<in> set (cancelled m) \<and> c \<notin> set (shutdowns m)
      then m\<lparr>shutdowns := shutdowns m @ [c], m_cancel := None\<rparr>
      else m)"

text \<open>
  A run of the manager: the notifications of the informer, delivered one at a time, and
  between them the teardown goroutines that get to run.
\<close>

datatype step = OnAdd DataSource | OnUpdate DataSource DataSource | Teardown nat

fun run :: "env \<Rightarrow> step list \<Rightarrow> manager \<Rightarrow> manager outcome" where
  "run e [] m = Return m"
| "run e (OnAdd ds # steps) m =
     (case Add e ds m of Panic \<Rightarrow> Panic | Return m1 \<Rightarrow> run e steps m1)"
| "run e (OnUpdate old ds # steps) m =
     (case Update e old ds m of Panic \<Rightarrow> Panic | Return m1 \<Rightarrow> run e steps m1)"
| "run e (Teardown c # steps) m = run e steps (teardown c m)"

text \<open>The generations with a worker pool whose scope has not been cancelled.\<close>

definition active :: "manager \<Rightarrow> nat list" where
  "active m = filter (\<lambda>c. c \<notin> set (cancelled m)) (map fst (pools m))"

section \<open>The conditions of schema resolution\<close>

text \<open>
  The test of \<open>getFeature\<close> for a fully-qualified schema, reached only for a schema that
  is not empty: the value parses and has a scheme, a host and a fragment. And the test that
  such a schema has the scheme and the host of the source's.
\<close>

definition fully_qualified :: "env \<Rightarrow> string \<Rightarrow> bool" where
  "fully_qualified e s =
     (s \<noteq> '''' \<and>
      (case url_Parse e s of
         Inl err \<Rightarrow> False
       | Inr u \<Rightarrow> Scheme u \<noteq> '''' \<and> Host u \<noteq> '''' \<and> Fragment u \<noteq> ''''))"

definition same_origin :: "env \<Rightarrow> string \<Rightarrow> URL \<Rightarrow> bool" where
  "same_origin e s src =
     (case url_Parse e s of
        Inl err \<Rightarrow> False
      | Inr u \<Rightarrow> Scheme u = Scheme src \<and> Host u = Host src)"

section \<open>Concrete collaborators\<close>

text \<open>
  A runtime that answers every call and echoes its correlation id; a cluster with three
  streaming features, \<open>clicks\<close> without a schema, \<open>views\<close> with the bare fragment
  \<open>view\<close> and \<open>buys\<close> with a schema on another host; a source configuration with a
  schema; and a registry with one broker kind. The theorems below are instantiated on it
  and on variations of it.
\<close>

definition demo_schema :: URL where
  "demo_schema = URL_zero\<lparr>Scheme := ''https'', Host := ''schemas.example'', Path := ''/v1''\<rparr>"

definition demo_env :: env where
  "demo_env = \<lparr>
     RegisterSchema = (\<lambda>k (uuid, schema). Resp uuid ()),
     LoadPyExpProgram = (\<lambda>k (uuid, program). Resp uuid (''sha1-of-'' @ program)),
     ExecutePyExp = (\<lambda>k req. Resp (Uuid req) ()),
     client_Get = (\<lambda>(ns, name).
        if name = ''clicks''
        then Inr \<lparr>spec_FQN = ''default.clicks'', Builder_Raw = ''clicks-builder''\<rparr>
        else if name = ''views''
        then Inr \<lparr>spec_FQN = ''default.views'', Builder_Raw = ''views-builder''\<rparr>
        else if name = ''buys''
        then Inr \<lparr>spec_FQN = ''default.buys'', Builder_Raw = ''buys-builder''\<rparr>
        else Inl (Lib ''not found'')),
     json_Unmarshal = (\<lambda>raw.
        if raw = ''clicks-builder'' then Inr (''streaming'', '''', ''count()'')
        else if raw = ''views-builder'' then Inr (''streaming'', ''view'', ''count()'')
        else if raw = ''buys-builder''
        then Inr (''streaming'', ''https://other.example/v2#buy'', ''sum()'')
        else Inl (Lib ''invalid character'')),
     url_Parse = (\<lambda>s.
        if s = ''https://other.example/v2#buy''
        then Inr (URL_zero\<lparr>Scheme := ''https'', Host := ''other.example'', Path := ''/v2'',
                    Fragment := ''buy''\<rparr>)
        else Inr (URL_zero\<lparr>Path := s\<rparr>)),
     url_String = (\<lambda>u. Scheme u @ ''://'' @ Host u @ Path u @
        (if Fragment u = '''' then '''' else ''#'' @ Fragment u)),
     url_ParseQuery = (\<lambda>s. Map.empty),
     Values_Encode = (\<lambda>v. ''''),
     strings_ToLower = (\<lambda>s. s),
     conn_String = ''default/source'',
     ev_SetData = (\<lambda>contentType body. None),
     ceProto_ToProto = (\<lambda>ev. Inr (ev_Data ev)),
     anypb_New = (\<lambda>pb. Inr pb),
     ParseConfig = (\<lambda>ds. (''kind: memory'', None)),
     cfg_Unmarshal = (\<lambda>cfg. Inr (''memory'', 0, Some demo_schema)),
     brokers_Get = (\<lambda>kind.
        if kind = ''memory''
        then Some \<lparr>Subscribe = (\<lambda>cfg. None),
                   Metadata_of = (\<lambda>msg. \<lparr>ID = ''1'', Timestamp = 0, Topic = ''events''\<rparr>)\<rparr>
        else None)\<rparr>"

definition demo_ft :: Feature where
  "demo_ft = \<lparr>Kind = ''streaming'', FQN = ''default.clicks'',
     Schema = ''https://schemas.example/v1'', Expression = ''count()'',
     programSha1 = ''sha1-of-count()''\<rparr>"

definition demo_req :: ExecutePyExpRequest where
  "demo_req = \<lparr>Uuid = 7, Fqn = ''default.clicks'', ProgramSha1 = ''sha1-of-count()'',
     Data = ''payload''\<rparr>"

definition demo_msg :: Message where
  "demo_msg = \<lparr>Body = ''{}'', Metadata = [(''content-type'', ''application/json'')],
     Nackable = True\<rparr>"

definition demo_md :: brokers_Metadata where
  "demo_md = \<lparr>ID = ''1'', Timestamp = 0, Topic = ''events''\<rparr>"

definition demo_bs :: BaseStreaming where
  "demo_bs = \<lparr>BrokerKind = ''memory'', Workers = 1, bs_Schema = Some demo_schema,
     subscription = Some 0, mdExtractor = Some (\<lambda>msg. demo_md), features = [Some demo_ft]\<rparr>"

definition demo_ds :: "string list \<Rightarrow> DataSource" where
  "demo_ds names = \<lparr>ds_Name = ''source'', ds_Namespace = ''default'', Spec_Kind = ''streaming'',
     Status_Features = map (\<lambda>n. \<lparr>Name = n, Namespace = ''''\<rparr>) names\<rparr>"


text \<open>A runtime whose execution fails with the status Internal.\<close>

definition failing_env :: env where
  "failing_env = demo_env\<lparr>ExecutePyExp := (\<lambda>k req. Fail 13 ''internal'')\<rparr>"

text \<open>A runtime that answers every call with the correlation id of another request.\<close>

definition confused_env :: env where
  "confused_env = demo_env\<lparr>
     RegisterSchema := (\<lambda>k (uuid, schema). Resp (Suc uuid) ()),
     LoadPyExpProgram := (\<lambda>k (uuid, program). Resp (Suc uuid) (''sha1-of-'' @ program)),
     ExecutePyExp := (\<lambda>k req. Resp (Suc (Uuid req)) ())\<rparr>"

text \<open>A source whose configuration has no schema.\<close>

definition schemaless_env :: env where
  "schemaless_env = demo_env\<lparr>cfg_Unmarshal := (\<lambda>cfg. Inr (''memory'', 0, None))\<rparr>"

lemmas demo_defs = demo_env_def demo_ds_def demo_bs_def demo_ft_def demo_msg_def demo_md_def
  demo_schema_def world_zero_def URL_zero_def NewEvent_def manager_zero_def

section \<open>Bounded retry of an execution\<close>












section \<open>Correlation ids\<close>

text \<open>
  C7. On each of the three exchanges, a response whose correlation id differs from the id
  of the request makes the operation return an error of its own, made by \<open>fmt.Errorf\<close>
  with the text "unexpected uuid" and wrapping nothing, unlike the error returned when the
  call itself fails; the fingerprint of the feature is left as it was.
\<close>

theorem correlation_id_mismatch_is_an_error:
  "(RegisterSchema e (length (schema_reqs w)) (uuids w, schema) = Resp ruuid x \<and>
      ruuid \<noteq> uuids w \<longrightarrow>
      fst (registerSchema e w schema) =
        Some (Errorf ''failed to register schema: unexpected uuid'')) \<and>
   (LoadPyExpProgram e (length (load_reqs w)) (uuids w, Expression ft) = Resp ruuid sha \<and>
      ruuid \<noteq> uuids w \<longrightarrow>
      fst (registerProgram e w ft) =
        (Some (Errorf ''failed to register program: unexpected uuid''), ft)) \<and>
   (ExecutePyExp e (length (exec_reqs w)) req = Resp ruuid y \<and> ruuid \<noteq> Uuid req \<longrightarrow>
      fst (handle_exec e w req ft tries) =
        (Some (Errorf ''failed to execute program: unexpected uuid''), ft))"
  by (subst handle_exec.simps)
    (simp add: registerSchema_def registerProgram_def newUUID_def Let_def)

theorem correlation_id_mismatch_is_an_error_witness:
  "RegisterSchema confused_env (length (schema_reqs world_zero))
      (uuids world_zero, ''https://schemas.example/v1'') = Resp 1 () \<and>
   fst (registerSchema confused_env world_zero ''https://schemas.example/v1'') =
     Some (Errorf ''failed to register schema: unexpected uuid'') \<and>
   LoadPyExpProgram confused_env (length (load_reqs world_zero))
      (uuids world_zero, Expression demo_ft) = Resp 1 ''sha1-of-count()'' \<and>
   fst (registerProgram confused_env world_zero demo_ft) =
     (Some (Errorf ''failed to register program: unexpected uuid''), demo_ft) \<and>
   ExecutePyExp confused_env (length (exec_reqs world_zero)) demo_req = Resp 8 () \<and>
   fst (handle_exec confused_env world_zero demo_req demo_ft 1) =
     (Some (Errorf ''failed to execute program: unexpected uuid''), demo_ft)"
  using correlation_id_mismatch_is_an_error [where e = confused_env and w = world_zero
      and schema = "''https://schemas.example/v1''" and ruuid = 1 and ft = demo_ft
      and sha = "''sha1-of-count()''" and tries = 1]
    correlation_id_mismatch_is_an_error [where e = confused_env and w = world_zero
      and req = demo_req and ruuid = 8 and ft = demo_ft and tries = 1]
  by (simp add: confused_env_def demo_defs demo_req_def)

section \<open>Schema resolution\<close>

lemma getFeature_schema_None:
  "bs_Schema bs = None \<Longrightarrow> fst (getFeature_schema e w ft bs) = Panic"
  by (simp add: getFeature_schema_def split: sum.splits)

lemma getFeature_schema_Some:
  "bs_Schema bs = Some src \<Longrightarrow> fst (getFeature_schema e w ft bs) \<noteq> Panic"
  by (simp add: getFeature_schema_def split: sum.splits prod.splits option.splits)

lemma getFeature_schema_empty:
  "bs_Schema bs = Some src \<Longrightarrow> Schema ft = '''' \<Longrightarrow>
   getFeature_schema e w ft bs = (Return (Inr (ft\<lparr>Schema := url_String e src\<rparr>)), w)"
  by (simp add: getFeature_schema_def)

lemma getFeature_schema_fragment:
  "bs_Schema bs = Some src \<Longrightarrow> Schema ft \<noteq> '''' \<Longrightarrow> \<not> fully_qualified e (Schema ft) \<Longrightarrow>
   getFeature_schema e w ft bs =
     (Return (Inr (ft\<lparr>Schema := url_String e (src\<lparr>Fragment := Schema ft\<rparr>)\<rparr>)), w)"
  by (auto simp add: getFeature_schema_def fully_qualified_def split: sum.splits)

lemma getFeature_schema_foreign:
  "bs_Schema bs = Some src \<Longrightarrow> fully_qualified e (Schema ft) \<Longrightarrow>
   \<not> same_origin e (Schema ft) src \<Longrightarrow>
   getFeature_schema e w ft bs =
     (case registerSchema e w (Schema ft) of
        (Some err, w1) \<Rightarrow> (Return (Inl (Wrapf ''failed to register schema'' err)), w1)
      | (None, w1) \<Rightarrow> (Return (Inr ft), w1))"
  by (auto simp add: getFeature_schema_def fully_qualified_def same_origin_def split: sum.splits)

lemma registerSchema_world:
  "snd (registerSchema e w s) =
     w\<lparr>uuids := Suc (uuids w), schema_reqs := schema_reqs w @ [(uuids w, s)]\<rparr>"
  by (simp add: registerSchema_def newUUID_def Let_def split: reply.splits)

lemma registerProgram_Schema:
  "Schema (snd (fst (registerProgram e w ft))) = Schema ft \<and>
   schema_reqs (snd (registerProgram e w ft)) = schema_reqs w"
  by (simp add: registerProgram_def newUUID_def Let_def split: reply.splits)

text \<open>
  A feature that \<open>getFeature\<close> returns without an error left the schema block with the
  schema it has, and the program registration after the block sends no schema.
\<close>

lemma getFeature_resolved:
  assumes "getFeature e w ref bs = (Return (Some ft1, None), w1)"
    and "client_Get e (Namespace ref, Name ref) = Inr spec"
    and "json_Unmarshal e (Builder_Raw spec) = Inr (kind, schema, expression)"
  shows "\<exists>ft0 w0.
           getFeature_schema e w \<lparr>Kind = kind, FQN = spec_FQN spec, Schema = schema,
              Expression = expression, programSha1 = ''''\<rparr> bs = (Return (Inr ft0), w0) \<and>
           Schema ft1 = Schema ft0 \<and> schema_reqs w1 = schema_reqs w0"
  using assms registerProgram_Schema
  apply (simp add: getFeature_def split: sum.splits prod.splits if_splits outcome.splits)
  apply (metis fst_conv snd_conv)
  done

text \<open>
  C6. Let \<open>getFeature\<close> resolve a feature whose decoded schema is \<open>schema\<close>. Then the
  source has a schema \<open>src\<close>, and: an empty \<open>schema\<close> gives the string of \<open>src\<close> and sends
  no schema registration; a \<open>schema\<close> that is not empty and not fully qualified gives the
  string of the URL that is \<open>src\<close> with \<open>schema\<close> as its fragment, which has the scheme and
  the host of \<open>src\<close>, and sends no schema registration; a fully-qualified \<open>schema\<close> whose
  scheme and host are not both those of \<open>src\<close> is kept as it is and sends exactly one
  schema registration, of \<open>schema\<close> itself.
\<close>

theorem schema_resolution:
  assumes res: "getFeature e w ref bs = (Return (Some ft1, None), w1)"
    and get: "client_Get e (Namespace ref, Name ref) = Inr spec"
    and dec: "json_Unmarshal e (Builder_Raw spec) = Inr (kind, schema, expression)"
  shows "\<exists>src. bs_Schema bs = Some src \<and>
     (schema = '''' \<longrightarrow>
        Schema ft1 = url_String e src \<and> schema_reqs w1 = schema_reqs w) \<and>
     (schema \<noteq> '''' \<and> \<not> fully_qualified e schema \<longrightarrow>
        (\<exists>u. Schema ft1 = url_String e u \<and> u = src\<lparr>Fragment := schema\<rparr> \<and>
              Scheme u = Scheme src \<and> Host u = Host src \<and> Fragment u = schema) \<and>
        schema_reqs w1 = schema_reqs w) \<and>
     (fully_qualified e schema \<and> \<not> same_origin e schema src \<longrightarrow>
        Schema ft1 = schema \<and> schema_reqs w1 = schema_reqs w @ [(uuids w, schema)])"
proof -
  define ft where "ft = \<lparr>Kind = kind, FQN = spec_FQN spec, Schema = schema,
     Expression = expression, programSha1 = ''''\<rparr>"
  from getFeature_resolved[OF res get dec] obtain ft0 w0 where
    sch: "getFeature_schema e w ft bs = (Return (Inr ft0), w0)"
    and eq: "Schema ft1 = Schema ft0" "schema_reqs w1 = schema_reqs w0"
    unfolding ft_def by blast
  have s: "Schema ft = schema" by (simp add: ft_def)
  obtain src where src: "bs_Schema bs = Some src"
    using sch getFeature_schema_None[of bs e w ft] by (cases "bs_Schema bs") auto
  have a: "Schema ft1 = url_String e src \<and> schema_reqs w1 = schema_reqs w" if "schema = ''''"
    using getFeature_schema_empty[OF src, of ft e w] sch eq that s by auto
  have b: "Schema ft1 = url_String e (src\<lparr>Fragment := schema\<rparr>) \<and>
      schema_reqs w1 = schema_reqs w"
    if "schema \<noteq> ''''" "\<not> fully_qualified e schema"
    using getFeature_schema_fragment[OF src, of ft e w] sch eq that s by auto
  have c: "Schema ft1 = schema \<and> schema_reqs w1 = schema_reqs w @ [(uuids w, schema)]"
    if "fully_qualified e schema" "\<not> same_origin e schema src"
  proof -
    obtain rerr wr where r: "registerSchema e w schema = (rerr, wr)"
      by (metis surj_pair)
    have "wr = w\<lparr>uuids := Suc (uuids w), schema_reqs := schema_reqs w @ [(uuids w, schema)]\<rparr>"
      using registerSchema_world[of e w schema] r by simp
    then show ?thesis
      using getFeature_schema_foreign[OF src, of e ft w] sch eq that s r
      by (auto split: option.splits)
  qed
  show ?thesis
    using src a b c by auto
qed

lemmas resolution_defs = getFeature_def getFeature_schema_def registerSchema_def
  registerProgram_def newUUID_def fully_qualified_def same_origin_def

theorem schema_resolution_witness:
  "(getFeature demo_env world_zero \<lparr>Name = ''clicks'', Namespace = ''default''\<rparr> demo_bs =
      (Return (Some \<lparr>Kind = ''streaming'', FQN = ''default.clicks'',
          Schema = ''https://schemas.example/v1'', Expression = ''count()'',
          programSha1 = ''sha1-of-count()''\<rparr>, None),
       \<lparr>uuids = 1, schema_reqs = [], load_reqs = [(0, ''count()'')], exec_reqs = []\<rparr>) \<and>
    ''https://schemas.example/v1'' = url_String demo_env demo_schema) \<and>
   (getFeature demo_env world_zero \<lparr>Name = ''views'', Namespace = ''default''\<rparr> demo_bs =
      (Return (Some \<lparr>Kind = ''streaming'', FQN = ''default.views'',
          Schema = ''https://schemas.example/v1#view'', Expression = ''count()'',
          programSha1 = ''sha1-of-count()''\<rparr>, None),
       \<lparr>uuids = 1, schema_reqs = [], load_reqs = [(0, ''count()'')], exec_reqs = []\<rparr>) \<and>
    \<not> fully_qualified demo_env ''view'' \<and>
    ''https://schemas.example/v1#view'' =
      url_String demo_env (demo_schema\<lparr>Fragment := ''view''\<rparr>)) \<and>
   (getFeature demo_env world_zero \<lparr>Name = ''buys'', Namespace = ''default''\<rparr> demo_bs =
      (Return (Some \<lparr>Kind = ''streaming'', FQN = ''default.buys'',
          Schema = ''https://other.example/v2#buy'', Expression = ''sum()'',
          programSha1 = ''sha1-of-sum()''\<rparr>, None),
       \<lparr>uuids = 2, schema_reqs = [(0, ''https://other.example/v2#buy'')],
          load_reqs = [(1, ''sum()'')], exec_reqs = []\<rparr>) \<and>
    fully_qualified demo_env ''https://other.example/v2#buy'' \<and>
    \<not> same_origin demo_env ''https://other.example/v2#buy'' demo_schema)"
proof -
  let ?clicks = "\<lparr>Name = ''clicks'', Namespace = ''default''\<rparr>"
  let ?views = "\<lparr>Name = ''views'', Namespace = ''default''\<rparr>"
  let ?buys = "\<lparr>Name = ''buys'', Namespace = ''default''\<rparr>"
  let ?w1 = "\<lparr>uuids = 1, schema_reqs = [], load_reqs = [(0, ''count()'')], exec_reqs = []\<rparr>"
  let ?w2 = "\<lparr>uuids = 2, schema_reqs = [(0, ''https://other.example/v2#buy'')],
          load_reqs = [(1, ''sum()'')], exec_reqs = []\<rparr>"
  let ?f1 = "\<lparr>Kind = ''streaming'', FQN = ''default.clicks'',
          Schema = ''https://schemas.example/v1'', Expression = ''count()'',
          programSha1 = ''sha1-of-count()''\<rparr>"
  let ?f2 = "\<lparr>Kind = ''streaming'', FQN = ''default.views'',
          Schema = ''https://schemas.example/v1#view'', Expression = ''count()'',
          programSha1 = ''sha1-of-count()''\<rparr>"
  let ?f3 = "\<lparr>Kind = ''streaming'', FQN = ''default.buys'',
          Schema = ''https://other.example/v2#buy'', Expression = ''sum()'',
          programSha1 = ''sha1-of-sum()''\<rparr>"
  have r1: "getFeature demo_env world_zero ?clicks demo_bs = (Return (Some ?f1, None), ?w1)"
    by (simp add: resolution_defs demo_defs)
  have r2: "getFeature demo_env world_zero ?views demo_bs = (Return (Some ?f2, None), ?w1)"
    by (simp add: resolution_defs demo_defs)
  have r3: "getFeature demo_env world_zero ?buys demo_bs = (Return (Some ?f3, None), ?w2)"
    by (simp add: resolution_defs demo_defs)
  have g1: "client_Get demo_env (Namespace ?clicks, Name ?clicks) =
      Inr \<lparr>spec_FQN = ''default.clicks'', Builder_Raw = ''clicks-builder''\<rparr>"
    and g2: "client_Get demo_env (Namespace ?views, Name ?views) =
      Inr \<lparr>spec_FQN = ''default.views'', Builder_Raw = ''views-builder''\<rparr>"
    and g3: "client_Get demo_env (Namespace ?buys, Name ?buys) =
      Inr \<lparr>spec_FQN = ''default.buys'', Builder_Raw = ''buys-builder''\<rparr>"
    by (simp_all add: demo_env_def)
  have d1: "json_Unmarshal demo_env
        (Builder_Raw \<lparr>spec_FQN = ''default.clicks'', Builder_Raw = ''clicks-builder''\<rparr>) =
      Inr (''streaming'', '''', ''count()'')"
    and d2: "json_Unmarshal demo_env
        (Builder_Raw \<lparr>spec_FQN = ''default.views'', Builder_Raw = ''views-builder''\<rparr>) =
      Inr (''streaming'', ''view'', ''count()'')"
    and d3: "json_Unmarshal demo_env
        (Builder_Raw \<lparr>spec_FQN = ''default.buys'', Builder_Raw = ''buys-builder''\<rparr>) =
      Inr (''streaming'', ''https://other.example/v2#buy'', ''sum()'')"
    by (simp_all add: demo_env_def)
  have q2: "\<not> fully_qualified demo_env ''view''"
    and q3: "fully_qualified demo_env ''https://other.example/v2#buy''"
    and o3: "\<not> same_origin demo_env ''https://other.example/v2#buy'' demo_schema"
    by (simp_all add: fully_qualified_def same_origin_def demo_defs)
  show ?thesis
    using schema_resolution [OF r1 g1 d1] schema_resolution [OF r2 g2 d2]
      schema_resolution [OF r3 g3 d3] r1 r2 r3 q2 q3 o3
    by (simp add: demo_bs_def)
qed

text \<open>
  C10. For a feature that is fetched, decoded and of kind "streaming", \<open>getFeature\<close>
  panics exactly when the source has no schema: every branch of the schema block reads
  through \<open>bs.Schema\<close>, the branch of an empty schema and the branch of a schema that is
  not fully qualified among them. With a source schema it never panics.
\<close>

theorem getFeature_panics_iff_no_source_schema:
  assumes get: "client_Get e (Namespace ref, Name ref) = Inr spec"
    and dec: "json_Unmarshal e (Builder_Raw spec) = Inr (''streaming'', schema, expression)"
  shows "fst (getFeature e w ref bs) = Panic \<longleftrightarrow> bs_Schema bs = None"
proof -
  define ft where "ft = \<lparr>Kind = ''streaming'', FQN = spec_FQN spec, Schema = schema,
     Expression = expression, programSha1 = ''''\<rparr>"
  obtain r wr where sch: "getFeature_schema e w ft bs = (r, wr)"
    by (metis surj_pair)
  have unfolded: "fst (getFeature e w ref bs) = Panic \<longleftrightarrow> r = Panic"
    using get dec sch
    by (simp add: getFeature_def ft_def[symmetric] split: prod.splits outcome.splits sum.splits)
  show ?thesis
  proof (cases "bs_Schema bs")
    case None
    then show ?thesis
      using unfolded getFeature_schema_None[OF None, of e w ft] sch by simp
  next
    case (Some src)
    then show ?thesis
      using unfolded getFeature_schema_Some[OF Some, of e w ft] sch by simp
  qed
qed

theorem getFeature_panics_iff_no_source_schema_witness:
  "client_Get demo_env (Namespace \<lparr>Name = ''views'', Namespace = ''default''\<rparr>,
      Name \<lparr>Name = ''views'', Namespace = ''default''\<rparr>) =
     Inr \<lparr>spec_FQN = ''default.views'', Builder_Raw = ''views-builder''\<rparr> \<and>
   json_Unmarshal demo_env
      (Builder_Raw \<lparr>spec_FQN = ''default.views'', Builder_Raw = ''views-builder''\<rparr>) =
     Inr (''streaming'', ''view'', ''count()'') \<and>
   \<not> fully_qualified demo_env ''view'' \<and>
   fst (getFeature demo_env world_zero \<lparr>Name = ''views'', Namespace = ''default''\<rparr>
          (demo_bs\<lparr>bs_Schema := None\<rparr>)) = Panic \<and>
   fst (getFeature demo_env world_zero \<lparr>Name = ''views'', Namespace = ''default''\<rparr> demo_bs) \<noteq>
     Panic"
  using getFeature_panics_iff_no_source_schema [of demo_env
      "\<lparr>Name = ''views'', Namespace = ''default''\<rparr>"
      "\<lparr>spec_FQN = ''default.views'', Builder_Raw = ''views-builder''\<rparr>" "''view''" "''count()''"
      world_zero "demo_bs\<lparr>bs_Schema := None\<rparr>"]
    getFeature_panics_iff_no_source_schema [of demo_env
      "\<lparr>Name = ''views'', Namespace = ''default''\<rparr>"
      "\<lparr>spec_FQN = ''default.views'', Builder_Raw = ''views-builder''\<rparr>" "''view''" "''count()''"
      world_zero demo_bs]
  by (simp add: demo_defs fully_qualified_def)

text \<open>
  The panic is reached from \<open>Add\<close>: a source without a schema that lists a feature without
  a schema.
\<close>

lemma Add_without_schema_panics:
  "Add schemaless_env (demo_ds [''clicks'']) manager_zero = Panic"
  by (simp add: Add_def schemaless_env_def getFeatureDefinitions_def getFeature_def
      getFeature_schema_def demo_defs)

section \<open>The resolved feature list\<close>

text \<open>
  Every reference adds one entry to the list, whether \<open>getFeature\<close> returned an error
  or not.
\<close>

lemma getFeatureDefinitions_loop_length:
  "getFeatureDefinitions_loop e w ds bsc refs fts = (Return fts1, w1) \<Longrightarrow>
   length fts1 = length fts + length refs"
proof (induction refs arbitrary: w fts)
  case Nil
  then show ?case by simp
next
  case (Cons ref refs)
  then show ?case
    by (auto simp: Let_def split: prod.splits outcome.splits)
qed

text \<open>
  C1. The claim: a reference whose fetch, decoding or kind check fails is skipped, and the
  list handed to the workers holds only resolved features. The code: for a source that
  lists \<open>missing\<close>, which the cluster does not have, and then \<open>clicks\<close>, resolution goes on
  to \<open>clicks\<close>, and the list has the nil pointer returned for \<open>missing\<close> as its first
  entry.
\<close>

theorem getFeatureDefinitions_keeps_nil_for_failed_reference:
  "fst (getFeatureDefinitions demo_env world_zero (demo_ds [''missing'', ''clicks'']) demo_bs) =
     Return [None,
       Some \<lparr>Kind = ''streaming'', FQN = ''default.clicks'',
             Schema = ''https://schemas.example/v1'', Expression = ''count()'',
             programSha1 = ''sha1-of-count()''\<rparr>]"
  by (simp add: getFeatureDefinitions_def getFeature_def getFeature_schema_def
      registerProgram_def newUUID_def demo_defs)

text \<open>A worker that handles a message against such a list panics at the nil entry.\<close>

lemma worker_panics_on_nil_feature:
  "fst (snd (subscribe_worker demo_env world_zero (demo_bs\<lparr>features := [None, Some demo_ft]\<rparr>)
          [Recv demo_msg])) = Panic"
  by (simp add: demo_bs_def)

section \<open>Acknowledgement\<close>

text \<open>
  Whatever \<open>handle\<close> returned, a message that is not nackable is left acknowledged; a
  nackable message on which \<open>handle\<close> failed is negatively acknowledged, and the \<open>Ack\<close>
  that follows panics.
\<close>

lemma subscribe_settle_not_nackable:
  "\<not> Nackable msg \<Longrightarrow> subscribe_settle msg herr = (Acked, Return ())"
  by (simp add: subscribe_settle_def Message_Ack_def split: option.splits)

lemma subscribe_settle_nackable_failure:
  "Nackable msg \<Longrightarrow> subscribe_settle msg (Some err) = (Nacked, Panic)"
  by (simp add: subscribe_settle_def Message_Ack_def Message_Nack_def)

text \<open>
  C2. The claim: a message whose pipeline fails is negatively acknowledged when the broker
  supports it and is not acknowledged; acknowledgement happens only when the pipeline
  succeeds. The code, with a runtime whose execution fails: on a subscription whose
  messages are not nackable, each of two messages received is left acknowledged and the
  worker goes on; on a subscription whose messages are nackable, the first message is
  negatively acknowledged, the call of \<open>Ack\<close> that follows panics, and the second message
  is never received.
\<close>

theorem failed_message_is_acked_or_worker_panics:
  "fst (subscribe_worker failing_env world_zero demo_bs
          [Recv (demo_msg\<lparr>Nackable := False\<rparr>), Recv (demo_msg\<lparr>Nackable := False\<rparr>)]) =
     [Acked, Acked] \<and>
   fst (snd (subscribe_worker failing_env world_zero demo_bs
          [Recv (demo_msg\<lparr>Nackable := False\<rparr>), Recv (demo_msg\<lparr>Nackable := False\<rparr>)])) =
     Return () \<and>
   fst (subscribe_worker failing_env world_zero demo_bs [Recv demo_msg, Recv demo_msg]) =
     [Nacked] \<and>
   fst (snd (subscribe_worker failing_env world_zero demo_bs [Recv demo_msg, Recv demo_msg])) =
     Panic"
  by (simp add: handle_feature_def message_headers_def URL_Query_def Values_Add_def
      newUUID_def Let_def failing_env_def codes_NotFound_def handle_exec.simps
      subscribe_settle_def Message_Ack_def Message_Nack_def demo_defs)

text \<open>When the pipeline succeeds the message is acknowledged and the worker goes on.\<close>

lemma handled_message_is_acked:
  "fst (subscribe_worker demo_env world_zero demo_bs [Recv demo_msg, Recv demo_msg]) =
     [Acked, Acked] \<and>
   fst (snd (subscribe_worker demo_env world_zero demo_bs [Recv demo_msg, Recv demo_msg])) =
     Return ()"
  by (simp add: handle_feature_def message_headers_def URL_Query_def Values_Add_def
      newUUID_def Let_def handle_exec.simps
      subscribe_settle_def Message_Ack_def Message_Nack_def demo_defs)

section \<open>The headers of the event\<close>

text \<open>
  C3. The claim: the metadata of the message, encoded into the extension \<open>headers\<close>, is
  read back from it. The code: the extension is the same URL for every metadata, the empty
  URL whose query is the encoding of what \<open>ParseQuery\<close> reads from the empty string; no
  key and no value of the message reaches it.
\<close>

lemma headers_loop_keeps_url:
  "snd (headers_loop e md (c, u)) = u"
  by (induction md arbitrary: c) (auto simp: Let_def)

theorem message_headers_ignore_metadata:
  "snd (message_headers e md) =
     URL_zero\<lparr>RawQuery := Values_Encode e (url_ParseQuery e '''')\<rparr>"
  using headers_loop_keeps_url[of e md "''''" URL_zero]
  by (simp add: message_headers_def split_beta URL_Query_def URL_zero_def)

text \<open>
  So no decoder on the side of the runtime gives the metadata back from the extension:
  the empty metadata and a metadata with one pair are encoded alike.
\<close>

lemma no_decoder_recovers_metadata:
  "\<not> (\<exists>decode. \<forall>md. decode (snd (message_headers e md)) = md)"
proof
  assume "\<exists>decode. \<forall>md. decode (snd (message_headers e md)) = md"
  then obtain decode where d: "\<And>md. decode (snd (message_headers e md)) = md"
    by blast
  have same: "snd (message_headers e []) = snd (message_headers e [(''a'', ''b'')])"
    using headers_loop_keeps_url[of e "[]" "''''" URL_zero]
      headers_loop_keeps_url[of e "[(''a'', ''b'')]" "''''" URL_zero]
    by (simp add: message_headers_def split_beta Let_def)
  from d[of "[]"] d[of "[(''a'', ''b'')]"] same show False
    by simp
qed

section \<open>The source controller\<close>

text \<open>
  C8. For a source whose kind is not "streaming", \<open>Add\<close> and \<open>Update\<close> return with the
  readiness flag false, and with no context, no subscription and no worker pool more than
  before.
\<close>

theorem other_kind_is_ignored:
  assumes "Spec_Kind ds \<noteq> ''streaming''"
  shows "(\<exists>m1. Add e ds m = Return m1 \<and> \<not> m_ready m1 \<and> ctxs m1 = ctxs m \<and>
            subscribed m1 = subscribed m \<and> pools m1 = pools m) \<and>
         (\<exists>m1. Update e old ds m = Return m1 \<and> \<not> m_ready m1 \<and> ctxs m1 = ctxs m \<and>
            subscribed m1 = subscribed m \<and> pools m1 = pools m)"
  using assms by (simp add: Add_def Update_def split: option.splits)

theorem other_kind_is_ignored_witness:
  "Spec_Kind ((demo_ds [''clicks''])\<lparr>Spec_Kind := ''batch''\<rparr>) \<noteq> ''streaming'' \<and>
   (\<exists>m1. Add demo_env ((demo_ds [''clicks''])\<lparr>Spec_Kind := ''batch''\<rparr>)
             (manager_zero\<lparr>m_ready := True\<rparr>) = Return m1 \<and>
      \<not> m_ready m1 \<and> ctxs m1 = 0 \<and> subscribed m1 = [] \<and> pools m1 = []) \<and>
   (\<exists>m1. Update demo_env (demo_ds [''clicks'']) ((demo_ds [''clicks''])\<lparr>Spec_Kind := ''batch''\<rparr>)
             (manager_zero\<lparr>m_ready := True\<rparr>) = Return m1 \<and>
      \<not> m_ready m1 \<and> ctxs m1 = 0 \<and> subscribed m1 = [] \<and> pools m1 = [])"
  using other_kind_is_ignored [of "(demo_ds [''clicks''])\<lparr>Spec_Kind := ''batch''\<rparr>" demo_env
      "manager_zero\<lparr>m_ready := True\<rparr>" "demo_ds [''clicks'']"]
  by (simp add: demo_ds_def manager_zero_def)

text \<open>
  When the manager holds the cancel function of a scope, \<open>Update\<close> calls it before \<open>Add\<close>
  runs.
\<close>

lemma Update_cancels_held_scope:
  "m_cancel m = Some c \<Longrightarrow>
   Update e old ds m = Add e ds (m\<lparr>cancelled := cancelled m @ [c], m_bs := None\<rparr>)"
  by (simp add: Update_def)

text \<open>
  C9. The claim: an update that arrives while a generation is active cancels the scope of
  that generation before the new one is built. The code: the teardown goroutine of a
  cancelled generation sets \<open>m.cancel\<close> to nil when it ends, also when \<open>Add\<close> has already
  put the cancel function of the next generation there. In the run below, the source is
  added (generation 0) and updated (generation 1), the teardown of generation 0 ends, and
  the source is updated again (generation 2): the scope of generation 1 is never cancelled,
  and the worker pools of generations 1 and 2 are both left running.
\<close>

theorem late_teardown_leaves_two_generations:
  "\<exists>m. run demo_env [OnAdd (demo_ds []), OnUpdate (demo_ds []) (demo_ds []), Teardown 0,
            OnUpdate (demo_ds []) (demo_ds [])] manager_zero = Return m \<and>
        cancelled m = [0] \<and> pools m = [(0, 1), (1, 1), (2, 1)] \<and> active m = [1, 2]"
  by (simp add: Add_def Update_def teardown_def active_def registerSchema_def newUUID_def
      getFeatureDefinitions_def demo_defs)

text \<open>Without a teardown between the two updates, each update cancels the generation before it.\<close>

lemma prompt_updates_leave_one_generation:
  "\<exists>m. run demo_env [OnAdd (demo_ds []), OnUpdate (demo_ds []) (demo_ds []),
            OnUpdate (demo_ds []) (demo_ds [])] manager_zero = Return m \<and>
        cancelled m = [0, 1] \<and> active m = [2]"
  by (simp add: Add_def Update_def teardown_def active_def registerSchema_def newUUID_def
      getFeatureDefinitions_def demo_defs)

end
